theory Spec2Isabelle
  imports Main "HOL-Library.Word"
begin

section \<open>Messages, packs and the observable effects of the pipeline\<close>

text \<open>
  The pipeline core of Heka: the plugin runners of \<^verbatim>\<open>pipeline/plugin_runners.go\<close>, the sandbox
  decoder adapter, and the two output plugins \<^verbatim>\<open>FileOutput\<close> and \<^verbatim>\<open>SmtpOutput\<close>.

  Go strings and byte slices are byte sequences; both are modelled as \<^typ>\<open>string\<close>.
  A \<^verbatim>\<open>[]byte\<close> header that the code tests with \<^verbatim>\<open>cap\<close> keeps its capacity.
\<close>

type_synonym bytes = string

record byte_slice =
  elems :: bytes
  capacity :: nat

record field =
  f_name :: string
  f_value :: string
  f_representation :: string

text \<open>
  \<^verbatim>\<open>message.Message\<close>: every optional header is a pointer in Go (\<^verbatim>\<open>nil\<close> = unset),
  \<^verbatim>\<open>Uuid\<close> is a byte slice (\<^verbatim>\<open>nil\<close> = unset).
\<close>

record message =
  Uuid :: "byte_slice option"
  Timestamp :: "64 word option"
  Type :: "string option"
  Logger :: "string option"
  Severity :: "32 word option"
  Payload :: "string option"
  EnvVersion :: "string option"
  Pid :: "32 word option"
  Hostname :: "string option"
  Fields :: "field list"

text \<open>\<^verbatim>\<open>new(message.Message)\<close>: nothing is set.\<close>

definition empty_message :: message where
  "empty_message = \<lparr>Uuid = None, Timestamp = None, Type = None, Logger = None, Severity = None,
     Payload = None, EnvVersion = None, Pid = None, Hostname = None, Fields = []\<rparr>"

text \<open>
  A \<^verbatim>\<open>*PipelinePack\<close>: the address identifies the envelope, \<^verbatim>\<open>Message\<close> is what it
  currently carries.
\<close>

record PipelinePack =
  pack_addr :: nat
  Message :: message

text \<open>A Go run-time panic; the only one the modelled code can raise itself.\<close>

datatype panic = NilPointerDereference

text \<open>
  Which runner wrote a log line: \<^verbatim>\<open>iRunner\<close> logs as \<^verbatim>\<open>Input '<name>'\<close>, \<^verbatim>\<open>dRunner\<close> as
  \<^verbatim>\<open>Decoder '<name>'\<close> and \<^verbatim>\<open>foRunner\<close> as \<^verbatim>\<open>Plugin '<name>'\<close>.
\<close>

datatype log_prefix = InputLog | DecoderLog | PluginLog

text \<open>
  Everything the modelled code does to the outside world is recorded, in program order, as
  an event: log lines, calls of \<^verbatim>\<open>pack.Recycle()\<close>, sends to the router's input channel
  (direct, or from a goroutine spawned for the send), and the calls a supervisor makes on its
  plugin, its retry helper, its plugin wrapper and the globals.
\<close>

datatype event =
    LogErrorEv log_prefix string string
  | LogMessageEv log_prefix string string
  | RecycleEv PipelinePack
  | RouterSendEv PipelinePack
  | GoRouterSendEv PipelinePack
  | TakeEv PipelinePack
  | ShutDownEv
  | MatcherStartEv
  | RunEv
  | CleanupForRestartEv
  | WaitEv
  | CreateWithErrorEv
  | SetDecoderRunnerEv
  | ShutdownDecoderEv
  | WgDoneEv
  | SendMailEv bytes
  | BatchSendEv bytes
  | BatchCloseEv

text \<open>
  The process-wide state a runner reads and writes: the \<^verbatim>\<open>Stopping\<close> flag of the globals and
  the trace of events so far.
\<close>

record world =
  Stopping :: bool
  trace :: "event list"

definition emit :: "event list \<Rightarrow> world \<Rightarrow> world" where
  "emit evs w = w\<lparr>trace := trace w @ evs\<rparr>"

definition Recycle :: "PipelinePack \<Rightarrow> world \<Rightarrow> world" where
  "Recycle pack w = emit [RecycleEv pack] w"

text \<open>
  Modelled from the spec: \<^verbatim>\<open>Globals().ShutDown()\<close> is not among the sources. The spec calls it
  the shutdown broadcast and says that fatal errors flip the global shutdown flag, so the
  call is recorded and raises \<^verbatim>\<open>Stopping\<close>.
\<close>

definition ShutDown :: "world \<Rightarrow> world" where
  "ShutDown w = (emit [ShutDownEv] w)\<lparr>Stopping := True\<rparr>"

section \<open>Filter and output runner: \<^verbatim>\<open>Inject\<close>\<close>

text \<open>
  What the supervisors look at in a plugin: which of the interfaces \<^verbatim>\<open>Filter\<close>, \<^verbatim>\<open>Output\<close>
  and \<^verbatim>\<open>Restarting\<close> its dynamic type satisfies.
\<close>

record plugin =
  is_filter :: bool
  is_output :: bool
  is_restarting :: bool

text \<open>
  \<^verbatim>\<open>foRunner\<close>. The matcher is a pointer to a \<^verbatim>\<open>MatchRunner\<close>, which may be \<^verbatim>\<open>nil\<close>; a
  match runner is represented by the predicate its compiled specification evaluates
  (\<^verbatim>\<open>MatcherSpecification().Match\<close>, the match engine, is not part of these sources).
\<close>

record foRunner =
  fo_name :: string
  fo_plugin :: plugin
  matcher :: "(message \<Rightarrow> bool) option"
  retainPack :: "PipelinePack option"

definition foRunner_LogError :: "foRunner \<Rightarrow> string \<Rightarrow> world \<Rightarrow> world" where
  "foRunner_LogError r err w = emit [LogErrorEv PluginLog (fo_name r) err] w"

definition foRunner_LogMessage :: "foRunner \<Rightarrow> string \<Rightarrow> world \<Rightarrow> world" where
  "foRunner_LogMessage r msg w = emit [LogMessageEv PluginLog (fo_name r) msg] w"

text \<open>
  \<^verbatim>\<open>foRunner.Inject\<close>. Calling \<^verbatim>\<open>MatcherSpecification\<close> on a \<^verbatim>\<open>nil\<close> match runner
  dereferences \<^verbatim>\<open>nil\<close>. The send to the router happens in a goroutine spawned for it.
\<close>

definition foRunner_Inject ::
  "foRunner \<Rightarrow> PipelinePack \<Rightarrow> world \<Rightarrow> panic + bool \<times> world" where
  "foRunner_Inject r pack w =
     (case matcher r of
        None \<Rightarrow> Inl NilPointerDereference
      | Some spec \<Rightarrow>
          if spec (Message pack)
          then Inr (False,
                 foRunner_LogError r ''attempted to Inject a message to itself'' (Recycle pack w))
          else Inr (True, emit [GoRouterSendEv pack] w))"

section \<open>Decoder runner\<close>

text \<open>
  A decoder plugin with private state \<open>'d\<close>. \<^verbatim>\<open>Decode\<close> returns a slice of packs (\<^verbatim>\<open>nil\<close> is
  \<open>None\<close>; a non-nil slice may be empty) and an error, or panics. The two optional
  interfaces \<^verbatim>\<open>WantsDecoderRunner\<close> and \<^verbatim>\<open>WantsDecoderRunnerShutdown\<close> are present when the
  corresponding hook is.
\<close>

record 'd Decoder =
  Decode :: "'d \<Rightarrow> PipelinePack \<Rightarrow> panic + (PipelinePack list option \<times> string option) \<times> 'd"
  SetDecoderRunner :: "('d \<Rightarrow> 'd) option"
  Shutdown :: "('d \<Rightarrow> 'd) option"

definition dRunner_LogError :: "string \<Rightarrow> string \<Rightarrow> world \<Rightarrow> world" where
  "dRunner_LogError nm err w = emit [LogErrorEv DecoderLog nm err] w"

definition dRunner_LogMessage :: "string \<Rightarrow> string \<Rightarrow> world \<Rightarrow> world" where
  "dRunner_LogMessage nm msg w = emit [LogMessageEv DecoderLog nm msg] w"

text \<open>The body of the drain loop of \<^verbatim>\<open>dRunner.Start\<close> for one pack taken from \<^verbatim>\<open>inChan\<close>.\<close>

definition dRunner_body ::
  "'d Decoder \<Rightarrow> string \<Rightarrow> PipelinePack \<Rightarrow> 'd \<Rightarrow> world \<Rightarrow> panic + 'd \<times> world" where
  "dRunner_body dec nm pack d w =
     (case Decode dec d pack of
        Inl pn \<Rightarrow> Inl pn
      | Inr ((Some packs, err), d') \<Rightarrow> Inr (d', emit (map RouterSendEv packs) w)
      | Inr ((None, err), d') \<Rightarrow>
          Inr (d', Recycle pack (case err of None \<Rightarrow> w | Some e \<Rightarrow> dRunner_LogError nm e w)))"

text \<open>\<^verbatim>\<open>for pack = range dr.inChan\<close>: the packs are those the channel yields until it is closed.\<close>

fun dRunner_drain ::
  "'d Decoder \<Rightarrow> string \<Rightarrow> PipelinePack list \<Rightarrow> 'd \<Rightarrow> world \<Rightarrow> panic + 'd \<times> world" where
  "dRunner_drain dec nm [] d w = Inr (d, w)"
| "dRunner_drain dec nm (pack # rest) d w =
     (case dRunner_body dec nm pack d w of
        Inl pn \<Rightarrow> Inl pn
      | Inr (d', w') \<Rightarrow> dRunner_drain dec nm rest d' w')"

text \<open>The goroutine of \<^verbatim>\<open>dRunner.Start\<close>.\<close>

definition dRunner_Start ::
  "'d Decoder \<Rightarrow> string \<Rightarrow> PipelinePack list \<Rightarrow> 'd \<Rightarrow> world \<Rightarrow> panic + 'd \<times> world" where
  "dRunner_Start dec nm inChan d w =
     (let (d1, w1) = (case SetDecoderRunner dec of
                        None \<Rightarrow> (d, w)
                      | Some hook \<Rightarrow> (hook d, emit [SetDecoderRunnerEv] w))
      in case dRunner_drain dec nm inChan d1 w1 of
           Inl pn \<Rightarrow> Inl pn
         | Inr (d2, w2) \<Rightarrow>
             (let (d3, w3) = (case Shutdown dec of
                                None \<Rightarrow> (d2, w2)
                              | Some hook \<Rightarrow> (hook d2, emit [ShutdownDecoderEv] w2))
              in Inr (d3, emit [WgDoneEv] (dRunner_LogMessage nm ''stopped'' w3))))"

section \<open>Output plugins\<close>

text \<open>
  The getters the protocol-buffers compiler generates for \<^verbatim>\<open>message.Message\<close> return the
  header's value when it is set and the field's default when it is \<^verbatim>\<open>nil\<close>. The generated
  file is not among the sources, so the defaults are a parameter.
\<close>

record getter_defaults =
  default_Timestamp :: "64 word"
  default_Type :: string
  default_Logger :: string
  default_Severity :: "32 word"
  default_Payload :: string
  default_Pid :: "32 word"
  default_Hostname :: string

definition GetPayload :: "getter_defaults \<Rightarrow> message \<Rightarrow> string" where
  "GetPayload g m = (case Payload m of None \<Rightarrow> default_Payload g | Some v \<Rightarrow> v)"

text \<open>
  The serialisers the output plugins call and the pipeline's \<^verbatim>\<open>NEWLINE\<close> byte, none of them
  part of these sources: \<^verbatim>\<open>json.Marshal\<close> returns the encoding or an error,
  \<^verbatim>\<open>ProtobufEncodeMessage\<close> appends to the buffer it is given and may return an error.
\<close>

record codecs =
  json_Marshal :: "message \<Rightarrow> string + bytes"
  ProtobufEncodeMessage :: "PipelinePack \<Rightarrow> bytes \<Rightarrow> string option \<times> bytes"
  NEWLINE :: char

subsection \<open>\<^verbatim>\<open>FileOutput\<close>\<close>

record FileOutput =
  path :: string
  format :: string
  prefix_ts :: bool
  flushInterval :: "32 word"

text \<open>
  \<^verbatim>\<open>FileOutput.handleMessage\<close>; \<open>ts\<close> is the text \<^verbatim>\<open>time.Now().Format(TSFORMAT)\<close> gives at the
  call. The result is the returned error and the contents of \<^verbatim>\<open>*outBytes\<close> afterwards.

  In the \<^verbatim>\<open>json\<close> case the \<^verbatim>\<open>if\<close> statement declares \<^verbatim>\<open>err\<close> anew with \<^verbatim>\<open>:=\<close>, so the
  assignment in its \<^verbatim>\<open>else\<close> branch writes that inner variable and the function's named result
  stays \<^verbatim>\<open>nil\<close>. In the \<^verbatim>\<open>text\<close> case \<^verbatim>\<open>*pack.Message.Payload\<close> dereferences the payload pointer.
\<close>

definition handleMessage ::
  "codecs \<Rightarrow> FileOutput \<Rightarrow> bytes \<Rightarrow> PipelinePack \<Rightarrow> bytes \<Rightarrow> panic + string option \<times> bytes" where
  "handleMessage c f ts pack outBytes =
     (let out1 = (if prefix_ts f \<and> format f \<noteq> ''protobufstream'' then outBytes @ ts else outBytes)
      in if format f = ''json'' then
           (case json_Marshal c (Message pack) of
              Inr jsonMessage \<Rightarrow> Inr (None, out1 @ jsonMessage @ [NEWLINE c])
            | Inl e \<Rightarrow> Inr (None, out1))
         else if format f = ''text'' then
           (case Payload (Message pack) of
              None \<Rightarrow> Inl NilPointerDereference
            | Some payload \<Rightarrow> Inr (None, out1 @ payload @ [NEWLINE c]))
         else if format f = ''protobufstream'' then
           (case ProtobufEncodeMessage c pack out1 of
              (None, out2) \<Rightarrow> Inr (None, out2)
            | (Some e, out2) \<Rightarrow> Inr (Some (''Can't encode to ProtoBuf: '' @ e), out2))
         else Inr (Some (''Invalid serialization format '' @ format f), out1))"

text \<open>
  What the \<^verbatim>\<open>select\<close> of \<^verbatim>\<open>FileOutput.receiver\<close> receives, in the order it receives it: a pack
  from \<^verbatim>\<open>inChan\<close> (with the time stamp text of the moment it is handled), or a tick (with the
  buffer \<^verbatim>\<open>backChan\<close> returns, should the batch be sent). The list ends where \<^verbatim>\<open>inChan\<close> is
  closed.
\<close>

datatype receiver_input = FromInChan PipelinePack bytes | FromTicker bytes

text \<open>
  The loop of \<^verbatim>\<open>FileOutput.receiver\<close>, with \<^verbatim>\<open>outBatch\<close> threaded through; \<^verbatim>\<open>outBytes\<close> is
  emptied after every pack, so \<^verbatim>\<open>handleMessage\<close> always starts from the empty buffer. A panic
  ends the goroutine (and the process) where it is raised.
\<close>

fun receiver_loop ::
  "codecs \<Rightarrow> FileOutput \<Rightarrow> foRunner \<Rightarrow> receiver_input list \<Rightarrow> bytes \<Rightarrow> world \<Rightarrow>
   panic option \<times> world" where
  "receiver_loop c f r [] outBatch w =
     (None, emit ((if outBatch \<noteq> [] then [BatchSendEv outBatch] else []) @ [BatchCloseEv]) w)"
| "receiver_loop c f r (FromInChan pack ts # rest) outBatch w =
     (case handleMessage c f ts pack [] of
        Inl pn \<Rightarrow> (Some pn, emit [TakeEv pack] w)
      | Inr (Some e, outBytes) \<Rightarrow>
          receiver_loop c f r rest outBatch
            (Recycle pack (foRunner_LogError r e (emit [TakeEv pack] w)))
      | Inr (None, outBytes) \<Rightarrow>
          receiver_loop c f r rest (outBatch @ outBytes) (Recycle pack (emit [TakeEv pack] w)))"
| "receiver_loop c f r (FromTicker returned # rest) outBatch w =
     (if outBatch \<noteq> [] then receiver_loop c f r rest returned (emit [BatchSendEv outBatch] w)
      else receiver_loop c f r rest outBatch w)"


subsection \<open>\<^verbatim>\<open>SmtpOutput\<close>\<close>









section \<open>Filter and output runner: pack retention\<close>












section \<open>Supervision\<close>

text \<open>
  Modelled from the spec: the retry helper (\<^verbatim>\<open>NewRetryHelper\<close>, \<^verbatim>\<open>Wait\<close>, \<^verbatim>\<open>Reset\<close>) is not
  among the sources. The spec describes it as bounded exponential backoff with jitter shared
  by all runners, with retries bounded by \<^verbatim>\<open>MaxRetries\<close>, and with \<^verbatim>\<open>max_delay\<close>, \<^verbatim>\<open>delay\<close> and
  \<^verbatim>\<open>max_jitter\<close> duration strings. So the helper counts the waits since the last reset;
  \<^verbatim>\<open>Wait\<close> fails once the count has reached \<^verbatim>\<open>MaxRetries\<close> and otherwise sleeps and counts,
  \<^verbatim>\<open>Reset\<close> sets the count to zero, and the helper cannot be built from a string that is not
  a duration. The options hold each duration as parsed (\<open>None\<close>: not a duration); the
  lengths of the sleeps are real time and not modelled.
\<close>

record RetryOptions =
  MaxDelay :: "nat option"
  Delay :: "nat option"
  MaxJitter :: "nat option"
  MaxRetries :: int

record RetryHelper =
  rh_maxRetries :: int
  rh_times :: int

definition NewRetryHelper :: "RetryOptions \<Rightarrow> string + RetryHelper" where
  "NewRetryHelper opts =
     (if MaxDelay opts = None \<or> Delay opts = None \<or> MaxJitter opts = None
      then Inl ''invalid duration''
      else Inr \<lparr>rh_maxRetries = MaxRetries opts, rh_times = 0\<rparr>)"

definition Wait :: "RetryHelper \<Rightarrow> string + RetryHelper" where
  "Wait rh =
     (if rh_maxRetries rh \<le> rh_times rh
      then Inl ''Max retries exceeded''
      else Inr (rh\<lparr>rh_times := rh_times rh + 1\<rparr>))"

definition Reset :: "RetryHelper \<Rightarrow> RetryHelper" where
  "Reset rh = rh\<lparr>rh_times := 0\<rparr>"

text \<open>
  A plugin wrapper is the recipe that re-creates a plugin; what \<^verbatim>\<open>CreateWithError\<close> returns
  depends on the plugin's \<^verbatim>\<open>Init\<close>, so a wrapper is given by the result of each of the
  supervisor's calls, counted from zero. \<^verbatim>\<open>PipelineConfig\<close> holds one map of wrappers per
  plugin class.
\<close>

type_synonym PluginWrapper = "nat \<Rightarrow> string + plugin"

record PipelineConfig =
  inputWrappers :: "string \<Rightarrow> PluginWrapper option"
  filterWrappers :: "string \<Rightarrow> PluginWrapper option"
  outputWrappers :: "string \<Rightarrow> PluginWrapper option"

text \<open>
  One return of the plugin's \<^verbatim>\<open>Run\<close>: the error it returns, and whether \<^verbatim>\<open>globals.Stopping\<close>
  had been raised from outside the runner by then. A supervisor is given the returns of
  the \<^verbatim>\<open>Run\<close> calls it makes, in order; when they are used up the next \<^verbatim>\<open>Run\<close> does not
  return.
\<close>

record run_result =
  run_err :: "string option"
  stop_seen :: bool

text \<open>
  What a supervisor's \<^verbatim>\<open>Starter\<close> carries from one iteration to the next: the plugin it
  runs, its retry helper, and how many times it has called \<^verbatim>\<open>CreateWithError\<close>.
\<close>

record supervisor =
  sv_plugin :: plugin
  sv_rh :: RetryHelper
  creations :: nat

datatype loop_exit = Break | Return | Crash panic

text \<open>
  The loop labelled \<^verbatim>\<open>createLoop\<close>, which \<^verbatim>\<open>iRunner.Starter\<close> and \<^verbatim>\<open>foRunner.Starter\<close> both
  contain, the same but for the runner that logs. \<open>pw\<close> is the wrapper found for the runner's
  name; a call of \<^verbatim>\<open>CreateWithError\<close> on a \<^verbatim>\<open>nil\<close> wrapper dereferences \<^verbatim>\<open>nil\<close>.
  \<open>stop_during n\<close> tells whether \<^verbatim>\<open>globals.Stopping\<close> is raised from outside the runner during
  the attempt that makes call number \<open>n\<close>. \<open>Break\<close> stands for both ways of leaving the loop
  to the statement after it.
\<close>

function createLoop ::
  "log_prefix \<Rightarrow> string \<Rightarrow> PluginWrapper option \<Rightarrow> (nat \<Rightarrow> bool) \<Rightarrow> supervisor \<Rightarrow> world \<Rightarrow>
   loop_exit \<times> supervisor \<times> world" where
  "createLoop lp nm pw stop_during sv w =
     (if Stopping w then (Break, sv, w)
      else (case Wait (sv_rh sv) of
              Inl err \<Rightarrow> (Return, sv, ShutDown (emit [LogErrorEv lp nm err] w))
            | Inr rh' \<Rightarrow>
                (case pw of
                   None \<Rightarrow> (Crash NilPointerDereference, sv\<lparr>sv_rh := rh'\<rparr>, emit [WaitEv] w)
                 | Some create \<Rightarrow>
                     (let w1 = (emit [WaitEv, CreateWithErrorEv] w)
                                 \<lparr>Stopping := Stopping w \<or> stop_during (creations sv)\<rparr>;
                          sv1 = sv\<lparr>sv_rh := rh', creations := Suc (creations sv)\<rparr>
                      in case create (creations sv) of
                           Inl err \<Rightarrow>
                             createLoop lp nm pw stop_during sv1 (emit [LogErrorEv lp nm err] w1)
                         | Inr p \<Rightarrow> (Break, sv1\<lparr>sv_plugin := p, sv_rh := Reset rh'\<rparr>, w1)))))"
  by pat_completeness auto
termination
  by (relation "measure (\<lambda>(lp, nm, pw, stop_during, sv, w).
                   nat (rh_maxRetries (sv_rh sv) - rh_times (sv_rh sv)))")
     (auto simp: Wait_def split: if_splits)

declare createLoop.simps [simp del]

datatype starter_exit = Returned | RunNeverReturns | Panicked panic

subsection \<open>Input runner\<close>

definition iRunner_LogError :: "string \<Rightarrow> string \<Rightarrow> world \<Rightarrow> world" where
  "iRunner_LogError nm err w = emit [LogErrorEv InputLog nm err] w"

definition iRunner_LogMessage :: "string \<Rightarrow> string \<Rightarrow> world \<Rightarrow> world" where
  "iRunner_LogMessage nm msg w = emit [LogMessageEv InputLog nm msg] w"

text \<open>
  What one call of \<^verbatim>\<open>Run\<close> that returns leaves behind: the call, the flag as seen afterwards,
  and the line the supervisor logs about the return.
\<close>

definition run_log :: "log_prefix \<Rightarrow> string \<Rightarrow> run_result \<Rightarrow> event" where
  "run_log lp nm res =
     (case run_err res of
        Some err \<Rightarrow> LogErrorEv lp nm err
      | None \<Rightarrow> LogMessageEv lp nm ''stopped'')"

definition after_Run :: "log_prefix \<Rightarrow> string \<Rightarrow> run_result \<Rightarrow> world \<Rightarrow> world" where
  "after_Run lp nm res w =
     emit [run_log lp nm res] ((emit [RunEv] w)\<lparr>Stopping := Stopping w \<or> stop_seen res\<rparr>)"

text \<open>The loop \<^verbatim>\<open>for !globals.Stopping\<close> of \<^verbatim>\<open>iRunner.Starter\<close>.\<close>

fun iRunner_loop ::
  "PipelineConfig \<Rightarrow> (nat \<Rightarrow> bool) \<Rightarrow> string \<Rightarrow> run_result list \<Rightarrow> supervisor \<Rightarrow> world \<Rightarrow>
   starter_exit \<times> supervisor \<times> world" where
  "iRunner_loop pc stop_during nm [] sv w =
     (if Stopping w then (Returned, sv, w) else (RunNeverReturns, sv, emit [RunEv] w))"
| "iRunner_loop pc stop_during nm (res # rest) sv w =
     (if Stopping w then (Returned, sv, w)
      else (let w1 = after_Run InputLog nm res w
            in if Stopping w1 then (Returned, sv, w1)
               else if is_restarting (sv_plugin sv)
               then (case createLoop InputLog nm (inputWrappers pc nm) stop_during sv
                            (emit [CleanupForRestartEv] w1) of
                       (Break, sv2, w2) \<Rightarrow>
                         iRunner_loop pc stop_during nm rest sv2
                           (iRunner_LogMessage nm ''exited, now restarting.'' w2)
                     | (Return, sv2, w2) \<Rightarrow> (Returned, sv2, w2)
                     | (Crash pn, sv2, w2) \<Rightarrow> (Panicked pn, sv2, w2))
               else (Returned, sv,
                     ShutDown (iRunner_LogMessage nm ''has stopped, shutting down.'' w1))))"

text \<open>
  \<^verbatim>\<open>iRunner.Starter\<close>. The deferred \<^verbatim>\<open>wg.Done()\<close> runs however the function is left, if it is
  left.
\<close>

definition iRunner_Starter ::
  "PipelineConfig \<Rightarrow> (nat \<Rightarrow> bool) \<Rightarrow> string \<Rightarrow> RetryOptions \<Rightarrow> plugin \<Rightarrow> run_result list \<Rightarrow>
   world \<Rightarrow> starter_exit \<times> plugin \<times> world" where
  "iRunner_Starter pc stop_during nm retries p runs w =
     (case NewRetryHelper retries of
        Inl err \<Rightarrow> (Returned, p, emit [WgDoneEv] (ShutDown (iRunner_LogError nm err w)))
      | Inr rh \<Rightarrow>
          (case iRunner_loop pc stop_during nm runs
                  \<lparr>sv_plugin = p, sv_rh = rh, creations = 0\<rparr> w of
             (RunNeverReturns, sv, w') \<Rightarrow> (RunNeverReturns, sv_plugin sv, w')
           | (ex, sv, w') \<Rightarrow> (ex, sv_plugin sv, emit [WgDoneEv] w')))"

subsection \<open>Filter and output runner\<close>

text \<open>
  The loop \<^verbatim>\<open>for !globals.Stopping\<close> of \<^verbatim>\<open>foRunner.Starter\<close>. A plugin that is both a filter
  and an output is run as a filter; \<^verbatim>\<open>pluginType\<close> selects the map in which the wrapper is
  looked up.
\<close>

fun foRunner_loop ::
  "PipelineConfig \<Rightarrow> (nat \<Rightarrow> bool) \<Rightarrow> foRunner \<Rightarrow> run_result list \<Rightarrow> supervisor \<Rightarrow> world \<Rightarrow>
   starter_exit \<times> supervisor \<times> world" where
  "foRunner_loop pc stop_during r [] sv w =
     (if Stopping w then (Returned, sv, w)
      else (let w0 = (if matcher r \<noteq> None then emit [MatcherStartEv] w else w)
            in if is_filter (sv_plugin sv) \<or> is_output (sv_plugin sv)
               then (RunNeverReturns, sv, emit [RunEv] w0)
               else (Returned, sv,
                     foRunner_LogError r ''Unable to assert this is an Output or Filter'' w0)))"
| "foRunner_loop pc stop_during r (res # rest) sv w =
     (if Stopping w then (Returned, sv, w)
      else (let w0 = (if matcher r \<noteq> None then emit [MatcherStartEv] w else w)
            in if \<not> (is_filter (sv_plugin sv) \<or> is_output (sv_plugin sv))
               then (Returned, sv,
                     foRunner_LogError r ''Unable to assert this is an Output or Filter'' w0)
               else (let pluginType = (if is_filter (sv_plugin sv) then ''filter'' else ''output'');
                         w1 = after_Run PluginLog (fo_name r) res w0
                     in if Stopping w1 then (Returned, sv, w1)
                        else (case (if pluginType = ''filter''
                                    then filterWrappers pc (fo_name r)
                                    else outputWrappers pc (fo_name r)) of
                                None \<Rightarrow> (Returned, sv, w1)
                              | Some create \<Rightarrow>
                                  if is_restarting (sv_plugin sv)
                                  then (case createLoop PluginLog (fo_name r) (Some create)
                                               stop_during sv (emit [CleanupForRestartEv] w1) of
                                          (Break, sv2, w2) \<Rightarrow>
                                            foRunner_loop pc stop_during r rest sv2
                                              (foRunner_LogMessage r ''exited, now restarting.'' w2)
                                        | (Return, sv2, w2) \<Rightarrow> (Returned, sv2, w2)
                                        | (Crash pn, sv2, w2) \<Rightarrow> (Panicked pn, sv2, w2))
                                  else (Returned, sv,
                                        ShutDown (foRunner_LogMessage r
                                          ''has stopped, shutting down.'' w1))))))"

text \<open>\<^verbatim>\<open>foRunner.Starter\<close>, started on the runner's current plugin.\<close>

definition foRunner_Starter ::
  "PipelineConfig \<Rightarrow> (nat \<Rightarrow> bool) \<Rightarrow> RetryOptions \<Rightarrow> foRunner \<Rightarrow> run_result list \<Rightarrow> world \<Rightarrow>
   starter_exit \<times> foRunner \<times> world" where
  "foRunner_Starter pc stop_during retries r runs w =
     (case NewRetryHelper retries of
        Inl err \<Rightarrow> (Returned, r, emit [WgDoneEv] (ShutDown (foRunner_LogError r err w)))
      | Inr rh \<Rightarrow>
          (case foRunner_loop pc stop_during r runs
                  \<lparr>sv_plugin = fo_plugin r, sv_rh = rh, creations = 0\<rparr> w of
             (RunNeverReturns, sv, w') \<Rightarrow> (RunNeverReturns, r\<lparr>fo_plugin := sv_plugin sv\<rparr>, w')
           | (ex, sv, w') \<Rightarrow> (ex, r\<lparr>fo_plugin := sv_plugin sv\<rparr>, emit [WgDoneEv] w')))"

subsection \<open>Reading a supervisor's trace\<close>



text \<open>
  The events of \<open>m\<close> failing attempts, the first of which makes call number \<open>c\<close>: a wait, the
  call, and the log line for the error the call returns.
\<close>

definition failed_attempts ::
  "log_prefix \<Rightarrow> string \<Rightarrow> PluginWrapper \<Rightarrow> nat \<Rightarrow> nat \<Rightarrow> event list" where
  "failed_attempts lp nm create c m =
     concat (map (\<lambda>i. [WaitEv, CreateWithErrorEv, LogErrorEv lp nm (projl (create i))])
                 [c..<c + m])"

section \<open>Sandbox decoder\<close>

definition GetTimestamp :: "getter_defaults \<Rightarrow> message \<Rightarrow> 64 word" where
  "GetTimestamp g m = (case Timestamp m of None \<Rightarrow> default_Timestamp g | Some v \<Rightarrow> v)"

definition GetType :: "getter_defaults \<Rightarrow> message \<Rightarrow> string" where
  "GetType g m = (case Type m of None \<Rightarrow> default_Type g | Some v \<Rightarrow> v)"

definition GetHostname :: "getter_defaults \<Rightarrow> message \<Rightarrow> string" where
  "GetHostname g m = (case Hostname m of None \<Rightarrow> default_Hostname g | Some v \<Rightarrow> v)"

definition GetLogger :: "getter_defaults \<Rightarrow> message \<Rightarrow> string" where
  "GetLogger g m = (case Logger m of None \<Rightarrow> default_Logger g | Some v \<Rightarrow> v)"

definition GetSeverity :: "getter_defaults \<Rightarrow> message \<Rightarrow> 32 word" where
  "GetSeverity g m = (case Severity m of None \<Rightarrow> default_Severity g | Some v \<Rightarrow> v)"

definition GetPid :: "getter_defaults \<Rightarrow> message \<Rightarrow> 32 word" where
  "GetPid g m = (case Pid m of None \<Rightarrow> default_Pid g | Some v \<Rightarrow> v)"

text \<open>
  \<^verbatim>\<open>copyMessageHeaders(dst, src)\<close> for two distinct messages (it returns at once when either
  pointer is \<^verbatim>\<open>nil\<close> or both are the same): every standard header of \<open>dst\<close> becomes that of
  \<open>src\<close>, set or unset; a \<^verbatim>\<open>Uuid\<close> of capacity zero counts as unset.
\<close>

definition copyMessageHeaders :: "message \<Rightarrow> message \<Rightarrow> message" where
  "copyMessageHeaders dst src = dst\<lparr>
     Uuid := (case Uuid src of
                None \<Rightarrow> None
              | Some u \<Rightarrow> if 0 < capacity u then Some u else None),
     Timestamp := Timestamp src,
     Type := Type src,
     Logger := Logger src,
     Severity := Severity src,
     Pid := Pid src,
     Hostname := Hostname src\<rparr>"

text \<open>
  The block of the inject callback guarded by \<^verbatim>\<open>original != nil\<close>: every standard header that
  is unset on the outgoing message is set to what the getter returns on \<open>original\<close>.
\<close>

definition fill_unset_headers :: "getter_defaults \<Rightarrow> message \<Rightarrow> message \<Rightarrow> message" where
  "fill_unset_headers g original m = m\<lparr>
     Uuid := (case Uuid m of None \<Rightarrow> Uuid original | Some u \<Rightarrow> Some u),
     Timestamp := (case Timestamp m of None \<Rightarrow> Some (GetTimestamp g original) | Some v \<Rightarrow> Some v),
     Type := (case Type m of None \<Rightarrow> Some (GetType g original) | Some v \<Rightarrow> Some v),
     Hostname := (case Hostname m of None \<Rightarrow> Some (GetHostname g original) | Some v \<Rightarrow> Some v),
     Logger := (case Logger m of None \<Rightarrow> Some (GetLogger g original) | Some v \<Rightarrow> Some v),
     Severity := (case Severity m of None \<Rightarrow> Some (GetSeverity g original) | Some v \<Rightarrow> Some v),
     Pid := (case Pid m of None \<Rightarrow> Some (GetPid g original) | Some v \<Rightarrow> Some v)\<rparr>"

text \<open>
  \<^verbatim>\<open>SandboxDecoder\<close>, with the variable \<^verbatim>\<open>original\<close> that the closure of \<^verbatim>\<open>SetDecoderRunner\<close>
  captures. \<^verbatim>\<open>sb_loaded\<close> is \<^verbatim>\<open>s.sb != nil\<close>. \<^verbatim>\<open>s.packs\<close> is \<^verbatim>\<open>nil\<close> or has been appended to, so
  it is never an empty slice that is not \<^verbatim>\<open>nil\<close>: the empty list stands for \<^verbatim>\<open>nil\<close>.
  \<^verbatim>\<open>original\<close> points either to a message of its own or to the message of the first pack of
  the batch, which nothing writes once the pack is in the batch; it is kept by value.
\<close>

record SandboxDecoder =
  sb_loaded :: bool
  processMessageCount :: "64 word"
  processMessageFailures :: "64 word"
  processMessageSamples :: "64 word"
  processMessageDuration :: "64 word"
  sample :: bool
  sd_err :: "string option"
  sd_pack :: "PipelinePack option"
  sd_packs :: "PipelinePack list"
  original :: "message option"

text \<open>
  One call of the inject callback by the script: its three arguments, and the pack
  \<^verbatim>\<open>dr.NewPack()\<close> returns should the callback ask for one.
\<close>

record injection =
  inj_payload :: string
  inj_payload_type :: string
  inj_payload_name :: string
  new_pack :: PipelinePack

text \<open>The end of the callback: fill the headers, append the pack to the batch, return 0.\<close>

definition accept_pack ::
  "getter_defaults \<Rightarrow> message option \<Rightarrow> PipelinePack \<Rightarrow> SandboxDecoder \<Rightarrow> int \<times> SandboxDecoder" where
  "accept_pack g orig pack s =
     (0, s\<lparr>sd_packs := sd_packs s @
               [pack\<lparr>Message := (case orig of
                                   None \<Rightarrow> Message pack
                                 | Some om \<Rightarrow> fill_unset_headers g om (Message pack))\<rparr>],
           sd_pack := None,
           original := orig\<rparr>)"

text \<open>
  The callback \<^verbatim>\<open>SetDecoderRunner\<close> registers with \<^verbatim>\<open>InjectMessage\<close>. \<open>unmarshal\<close> is
  \<^verbatim>\<open>proto.Unmarshal\<close>, which is not part of these sources: from the payload and the message
  it writes into, it gives the error it returns and the message it leaves behind.
\<close>

definition inject_callback ::
  "getter_defaults \<Rightarrow> (string \<Rightarrow> message \<Rightarrow> string option \<times> message) \<Rightarrow> injection \<Rightarrow>
   SandboxDecoder \<Rightarrow> int \<times> SandboxDecoder" where
  "inject_callback g unmarshal call s =
     (let (pack, orig1) =
            (case sd_pack s of
               None \<Rightarrow>
                 (new_pack call,
                  if original s = None \<and> sd_packs s \<noteq> []
                  then Some (Message (hd (sd_packs s)))
                  else original s)
             | Some pk \<Rightarrow> (pk, None))
      in if inj_payload_type call = []
         then (let orig2 = (case orig1 of
                              None \<Rightarrow> Some (copyMessageHeaders empty_message (Message pack))
                            | Some om \<Rightarrow> Some om);
                   (uerr, m1) = unmarshal (inj_payload call) (Message pack)
               in if uerr \<noteq> None
                  then (1, s\<lparr>sd_pack := Some (pack\<lparr>Message := m1\<rparr>), original := orig2\<rparr>)
                  else accept_pack g orig2 (pack\<lparr>Message := m1\<rparr>) s)
         else accept_pack g orig1
                (pack\<lparr>Message := (Message pack)\<lparr>
                   Payload := Some (inj_payload call),
                   Fields := Fields (Message pack) @
                     [\<lparr>f_name = ''payload_type'', f_value = inj_payload_type call,
                       f_representation = ''file-extension''\<rparr>,
                      \<lparr>f_name = ''payload_name'', f_value = inj_payload_name call,
                       f_representation = []\<rparr>]\<rparr>\<rparr>) s)"

text \<open>
  What the script does during one \<^verbatim>\<open>ProcessMessage\<close>: the calls of the inject callback it
  makes, in order, the value it returns, and the text \<^verbatim>\<open>LastError\<close> reports afterwards.
\<close>

record script_run =
  injections :: "injection list"
  retval :: int
  last_error :: string

fun inject_all ::
  "getter_defaults \<Rightarrow> (string \<Rightarrow> message \<Rightarrow> string option \<times> message) \<Rightarrow> injection list \<Rightarrow>
   SandboxDecoder \<Rightarrow> SandboxDecoder" where
  "inject_all g unmarshal [] s = s"
| "inject_all g unmarshal (call # rest) s =
     inject_all g unmarshal rest (snd (inject_callback g unmarshal call s))"

text \<open>\<^verbatim>\<open>for _, p := range s.packs[1:] { p.Recycle() }\<close>, under \<^verbatim>\<open>len(s.packs) > 1\<close>.\<close>

definition recycle_rest :: "PipelinePack list \<Rightarrow> world \<Rightarrow> world" where
  "recycle_rest packs w = (if 1 < length packs then emit (map RecycleEv (tl packs)) w else w)"

text \<open>
  \<^verbatim>\<open>SandboxDecoder.Decode\<close> for the runner named \<open>nm\<close>. \<open>dur\<close> is the duration the clock gives
  for the call when it is sampled and \<open>rnd\<close> the number \<^verbatim>\<open>rand.Intn\<close> returns. The error text
  for a negative return value reads \<^verbatim>\<open>s.pack.Message\<close>, which dereferences \<^verbatim>\<open>s.pack\<close>.
\<close>

definition SandboxDecoder_Decode ::
  "getter_defaults \<Rightarrow> (string \<Rightarrow> message \<Rightarrow> string option \<times> message) \<Rightarrow> string \<Rightarrow> script_run \<Rightarrow>
   64 word \<Rightarrow> nat \<Rightarrow> PipelinePack \<Rightarrow> SandboxDecoder \<Rightarrow> world \<Rightarrow>
   panic + (PipelinePack list option \<times> string option) \<times> SandboxDecoder \<times> world" where
  "SandboxDecoder_Decode g unmarshal nm script dur rnd pack s w =
     (if \<not> sb_loaded s then Inr ((None, sd_err s), s, w)
      else
        (let s1 = s\<lparr>sd_pack := Some pack, processMessageCount := processMessageCount s + 1\<rparr>;
             s2 = inject_all g unmarshal (injections script) s1;
             s3 = (if sample s2
                   then s2\<lparr>processMessageDuration := processMessageDuration s2 + dur,
                           processMessageSamples := processMessageSamples s2 + 1\<rparr>
                   else s2);
             s4 = s3\<lparr>sample := (rnd = 0)\<rparr>;
             (s5, w5) = (if 0 < retval script
                         then (s4\<lparr>sd_err := Some (''FATAL: '' @ last_error script)\<rparr>,
                               ShutDown (dRunner_LogError nm (''FATAL: '' @ last_error script) w))
                         else (s4, w))
         in if retval script < 0
            then (case sd_pack s5 of
                    None \<Rightarrow> Inl NilPointerDereference
                  | Some pk \<Rightarrow>
                      (let s6 = s5\<lparr>processMessageFailures := processMessageFailures s5 + 1,
                                   sd_err := Some (''Failed parsing: '' @ GetPayload g (Message pk))\<rparr>
                       in Inr ((None, sd_err s6), s6\<lparr>sd_packs := []\<rparr>,
                               recycle_rest (sd_packs s6) w5)))
            else Inr ((if sd_packs s5 = [] then None else Some (sd_packs s5), sd_err s5),
                      s5\<lparr>sd_packs := []\<rparr>, w5)))"

subsection \<open>What the inject callback is meant to produce\<close>

text \<open>
  The message a call of the callback builds before the header block runs: the decoded
  payload, or the pack's message with the payload and the two synthesized fields.
\<close>

definition before_fill ::
  "(string \<Rightarrow> message \<Rightarrow> string option \<times> message) \<Rightarrow> injection \<Rightarrow> PipelinePack \<Rightarrow> message" where
  "before_fill unmarshal call pack =
     (if inj_payload_type call = []
      then snd (unmarshal (inj_payload call) (Message pack))
      else (Message pack)\<lparr>
             Payload := Some (inj_payload call),
             Fields := Fields (Message pack) @
               [\<lparr>f_name = ''payload_type'', f_value = inj_payload_type call,
                 f_representation = ''file-extension''\<rparr>,
                \<lparr>f_name = ''payload_name'', f_value = inj_payload_name call,
                 f_representation = []\<rparr>]\<rparr>)"

text \<open>
  The batch one \<^verbatim>\<open>ProcessMessage\<close> on the input pack \<open>p0\<close> should leave, call by call: the
  input pack itself for the first call (its headers restored when the binary path wiped
  them), a new pack for every later call, each with its unset standard headers taken from
  the input message.
\<close>

definition first_injected ::
  "getter_defaults \<Rightarrow> (string \<Rightarrow> message \<Rightarrow> string option \<times> message) \<Rightarrow> PipelinePack \<Rightarrow>
   injection \<Rightarrow> PipelinePack" where
  "first_injected g unmarshal p0 call =
     p0\<lparr>Message := (if inj_payload_type call = []
                     then fill_unset_headers g (Message p0) (before_fill unmarshal call p0)
                     else before_fill unmarshal call p0)\<rparr>"

definition later_injected ::
  "getter_defaults \<Rightarrow> (string \<Rightarrow> message \<Rightarrow> string option \<times> message) \<Rightarrow> message \<Rightarrow>
   injection \<Rightarrow> PipelinePack" where
  "later_injected g unmarshal m0 call =
     (new_pack call)\<lparr>Message :=
        fill_unset_headers g m0 (before_fill unmarshal call (new_pack call))\<rparr>"

text \<open>A call whose payload, if binary, decodes whatever message it is decoded into.\<close>

definition decodes :: "(string \<Rightarrow> message \<Rightarrow> string option \<times> message) \<Rightarrow> injection \<Rightarrow> bool" where
  "decodes unmarshal call =
     (inj_payload_type call = [] \<longrightarrow> (\<forall>m. fst (unmarshal (inj_payload call) m) = None))"

text \<open>The standard headers as the header block of the callback reads them.\<close>

definition same_headers :: "getter_defaults \<Rightarrow> message \<Rightarrow> message \<Rightarrow> bool" where
  "same_headers g a b =
     (Uuid a = Uuid b \<and> GetTimestamp g a = GetTimestamp g b \<and> GetType g a = GetType g b
      \<and> GetHostname g a = GetHostname g b \<and> GetLogger g a = GetLogger g b
      \<and> GetSeverity g a = GetSeverity g b \<and> GetPid g a = GetPid g b)"

text \<open>
  What holds of the decoder between two calls of the callback once one call has succeeded
  and none has failed: no pack is under construction, the batch is not empty, and the
  message \<^verbatim>\<open>original\<close> will stand for on the next call has the headers of the input message
  \<open>m0\<close>.
\<close>

definition batch_inv :: "getter_defaults \<Rightarrow> message \<Rightarrow> SandboxDecoder \<Rightarrow> bool" where
  "batch_inv g m0 s =
     (sd_pack s = None \<and> sd_packs s \<noteq> [] \<and>
      (case original s of
         Some om \<Rightarrow> same_headers g om m0
       | None \<Rightarrow> same_headers g (Message (hd (sd_packs s))) m0))"

section \<open>Example values\<close>

definition typed_pack :: "nat \<Rightarrow> string \<Rightarrow> PipelinePack" where
  "typed_pack a t = \<lparr>pack_addr = a, Message = empty_message\<lparr>Type := Some t\<rparr>\<rparr>"

definition type_is :: "string \<Rightarrow> message \<Rightarrow> bool" where
  "type_is t m = (Type m = Some t)"

definition counter_filter :: foRunner where
  "counter_filter = \<lparr>fo_name = ''counter'',
     fo_plugin = \<lparr>is_filter = True, is_output = False, is_restarting = False\<rparr>,
     matcher = Some (type_is ''hit''), retainPack = None\<rparr>"

definition world0 :: world where
  "world0 = \<lparr>Stopping = False, trace = []\<rparr>"

text \<open>
  A decoder that splits a message of type \<open>multi\<close> in two, fails on type \<open>bad\<close> and drops
  everything else; its state counts the messages it has split.
\<close>

definition split_decoder :: "nat Decoder" where
  "split_decoder = \<lparr>
     Decode = (\<lambda>d pack.
       if Type (Message pack) = Some ''multi''
       then Inr ((Some [pack, pack\<lparr>pack_addr := Suc (pack_addr pack)\<rparr>], None), Suc d)
       else if Type (Message pack) = Some ''bad''
       then Inr ((None, Some ''parse error''), d)
       else Inr ((None, None), d)),
     SetDecoderRunner = None,
     Shutdown = None\<rparr>"

text \<open>Serialisers for the examples: a message without a type cannot be encoded.\<close>

definition type_codecs :: codecs where
  "type_codecs = \<lparr>
     json_Marshal = (\<lambda>m. case Type m of None \<Rightarrow> Inl ''unsupported'' | Some t \<Rightarrow> Inr t),
     ProtobufEncodeMessage = (\<lambda>pack buf. (None, buf)),
     NEWLINE = CHR 0x0A\<rparr>"

definition proto_defaults :: getter_defaults where
  "proto_defaults = \<lparr>default_Timestamp = 0, default_Type = [], default_Logger = [],
     default_Severity = 7, default_Payload = [], default_Pid = 0, default_Hostname = []\<rparr>"

definition json_file :: FileOutput where
  "json_file = \<lparr>path = ''/var/log/out'', format = ''json'', prefix_ts = True,
     flushInterval = 1000\<rparr>"


definition untyped_pack :: "nat \<Rightarrow> PipelinePack" where
  "untyped_pack a = \<lparr>pack_addr = a, Message = empty_message\<rparr>"


text \<open>Supervision examples: retry options, plugins, wrappers and a configuration.\<close>

definition two_retries :: RetryOptions where
  "two_retries = \<lparr>MaxDelay = Some 1, Delay = Some 1, MaxJitter = Some 1, MaxRetries = 2\<rparr>"


definition plain_input :: plugin where
  "plain_input = \<lparr>is_filter = False, is_output = False, is_restarting = False\<rparr>"

definition restartable_output :: plugin where
  "restartable_output = \<lparr>is_filter = False, is_output = True, is_restarting = True\<rparr>"

definition failing_wrapper :: PluginWrapper where
  "failing_wrapper n = Inl ''Init failed''"


definition demo_config :: PipelineConfig where
  "demo_config = \<lparr>
     inputWrappers = (\<lambda>nm. if nm = ''tcp'' then Some failing_wrapper else None),
     filterWrappers = (\<lambda>nm. if nm = ''counter'' then Some failing_wrapper else None),
     outputWrappers = (\<lambda>nm. if nm = ''log'' then Some failing_wrapper else None)\<rparr>"


definition adhoc_output :: foRunner where
  "adhoc_output = \<lparr>fo_name = ''adhoc'', fo_plugin = restartable_output, matcher = None,
     retainPack = None\<rparr>"

definition io_error :: run_result where
  "io_error = \<lparr>run_err = Some ''i/o error'', stop_seen = False\<rparr>"

definition never_stopped :: "nat \<Rightarrow> bool" where
  "never_stopped n = False"

text \<open>
  Sandbox examples. A stand-in for \<^verbatim>\<open>proto.Unmarshal\<close>: it resets the message, fails on the
  payload \<open>garbage\<close>, and otherwise decodes a message that carries the payload and no header.
\<close>

definition demo_unmarshal :: "string \<Rightarrow> message \<Rightarrow> string option \<times> message" where
  "demo_unmarshal bs m =
     (if bs = ''garbage'' then (Some ''unexpected EOF'', empty_message)
      else (None, empty_message\<lparr>Payload := Some bs\<rparr>))"

definition idle_decoder :: SandboxDecoder where
  "idle_decoder = \<lparr>sb_loaded = True, processMessageCount = 0, processMessageFailures = 0,
     processMessageSamples = 0, processMessageDuration = 0, sample = True, sd_err = None,
     sd_pack = None, sd_packs = [], original = None\<rparr>"

definition text_injection :: injection where
  "text_injection = \<lparr>inj_payload = ''line'', inj_payload_type = ''txt'',
     inj_payload_name = ''out'', new_pack = untyped_pack 20\<rparr>"

definition garbage_injection :: injection where
  "garbage_injection = \<lparr>inj_payload = ''garbage'', inj_payload_type = [],
     inj_payload_name = [], new_pack = untyped_pack 21\<rparr>"

definition binary_injection :: injection where
  "binary_injection = \<lparr>inj_payload = ''encoded'', inj_payload_type = [],
     inj_payload_name = [], new_pack = untyped_pack 22\<rparr>"

text \<open>A script that injects one text payload and then reports a failure that is not fatal.\<close>

definition inject_then_fail :: script_run where
  "inject_then_fail = \<lparr>injections = [text_injection], retval = - 1, last_error = []\<rparr>"

text \<open>A script that dies, and one whose last injection does not decode before it fails.\<close>

definition out_of_memory :: script_run where
  "out_of_memory = \<lparr>injections = [], retval = 1, last_error = ''out of memory''\<rparr>"

definition two_then_garbage :: script_run where
  "two_then_garbage = \<lparr>injections = [text_injection, binary_injection, garbage_injection],
     retval = - 1, last_error = []\<rparr>"

section \<open>Properties\<close>

subsection \<open>Self-injection is rejected\<close>

text \<open>
  Claim C1. For a filter runner with a message matcher and any pack: when the pack's message
  satisfies the runner's own matcher, \<^verbatim>\<open>Inject\<close> returns false, the pack is recycled and an
  error is logged, and nothing is sent to the router; when it does not, \<^verbatim>\<open>Inject\<close> returns
  true and the pack is handed to the router (by a goroutine spawned for the send), with no
  recycle and no log line.
\<close>

theorem C1_Inject_rejects_self_match:
  assumes "matcher r = Some spec"
  shows "(spec (Message p) \<longrightarrow>
            foRunner_Inject r p w =
              Inr (False, w\<lparr>trace := trace w @
                     [RecycleEv p,
                      LogErrorEv PluginLog (fo_name r) ''attempted to Inject a message to itself'']\<rparr>))
       \<and> (\<not> spec (Message p) \<longrightarrow>
            foRunner_Inject r p w = Inr (True, w\<lparr>trace := trace w @ [GoRouterSendEv p]\<rparr>))"
  using assms
  by (simp add: foRunner_Inject_def foRunner_LogError_def Recycle_def emit_def)

theorem C1_Inject_witness:
  "foRunner_Inject counter_filter (typed_pack 1 ''hit'') world0 =
     Inr (False, \<lparr>Stopping = False, trace =
            [RecycleEv (typed_pack 1 ''hit''),
             LogErrorEv PluginLog ''counter'' ''attempted to Inject a message to itself'']\<rparr>)
   \<and> foRunner_Inject counter_filter (typed_pack 2 ''miss'') world0 =
     Inr (True, \<lparr>Stopping = False, trace = [GoRouterSendEv (typed_pack 2 ''miss'')]\<rparr>)"
  using C1_Inject_rejects_self_match [of counter_filter "type_is ''hit''" "typed_pack 1 ''hit''" world0]
        C1_Inject_rejects_self_match [of counter_filter "type_is ''hit''" "typed_pack 2 ''miss''" world0]
  by (simp add: counter_filter_def type_is_def typed_pack_def world0_def empty_message_def)

subsection \<open>Traces\<close>

lemma trace_emit [simp]: "trace (emit evs w) = trace w @ evs"
  by (simp add: emit_def)

lemma Stopping_emit [simp]: "Stopping (emit evs w) = Stopping w"
  by (simp add: emit_def)

lemma emit_emit: "emit bs (emit as w) = emit (as @ bs) w"
  by (simp add: emit_def)

lemma emit_Nil [simp]: "emit [] w = w"
  by (simp add: emit_def)




subsection \<open>The decoder runner's drain loop\<close>

text \<open>
  Claim C5. For a pack the drain loop of the decoder runner takes: when \<^verbatim>\<open>Decode\<close> returns a
  non-nil slice, the loop sends every pack of the slice to the router's input channel, in
  order, and does nothing else (no recycle of the original pack, no log line); when it
  returns \<^verbatim>\<open>nil\<close> and an error, the error is logged and the original pack is recycled once;
  when it returns \<^verbatim>\<open>nil\<close> and no error, the original pack is recycled once and nothing is
  logged. The loop then goes on with the next pack.
\<close>

theorem C5_decoder_drain:
  "(Decode dec d pack = Inr ((Some packs, err), d') \<longrightarrow>
      dRunner_body dec nm pack d w =
        Inr (d', w\<lparr>trace := trace w @ map RouterSendEv packs\<rparr>))
   \<and> (Decode dec d pack = Inr ((None, Some e), d') \<longrightarrow>
      dRunner_body dec nm pack d w =
        Inr (d', w\<lparr>trace := trace w @ [LogErrorEv DecoderLog nm e, RecycleEv pack]\<rparr>))
   \<and> (Decode dec d pack = Inr ((None, None), d') \<longrightarrow>
      dRunner_body dec nm pack d w = Inr (d', w\<lparr>trace := trace w @ [RecycleEv pack]\<rparr>))
   \<and> dRunner_drain dec nm (pack # rest) d w =
      (case dRunner_body dec nm pack d w of
         Inl pn \<Rightarrow> Inl pn
       | Inr (d', w') \<Rightarrow> dRunner_drain dec nm rest d' w')"
  by (simp add: dRunner_body_def dRunner_LogError_def Recycle_def emit_def)

theorem C5_decoder_drain_witness:
  "dRunner_body split_decoder ''split'' (typed_pack 4 ''multi'') 0 world0 =
     Inr (1, \<lparr>Stopping = False, trace =
       [RouterSendEv (typed_pack 4 ''multi''), RouterSendEv (typed_pack 5 ''multi'')]\<rparr>)
   \<and> dRunner_body split_decoder ''split'' (typed_pack 6 ''bad'') 1 world0 =
     Inr (1, \<lparr>Stopping = False, trace =
       [LogErrorEv DecoderLog ''split'' ''parse error'', RecycleEv (typed_pack 6 ''bad'')]\<rparr>)
   \<and> dRunner_body split_decoder ''split'' (typed_pack 7 ''other'') 1 world0 =
     Inr (1, \<lparr>Stopping = False, trace = [RecycleEv (typed_pack 7 ''other'')]\<rparr>)"
  using C5_decoder_drain [of split_decoder 0 "typed_pack 4 ''multi''"
          "[typed_pack 4 ''multi'', typed_pack 5 ''multi'']" None 1 "''split''" world0]
        C5_decoder_drain [of split_decoder 1 "typed_pack 6 ''bad''" _ _ 1 "''split''" world0
          "''parse error''"]
        C5_decoder_drain [of split_decoder 1 "typed_pack 7 ''other''" _ _ 1 "''split''" world0]
  by (simp add: split_decoder_def typed_pack_def world0_def empty_message_def)

subsection \<open>Pack ownership in the output plugins\<close>





subsection \<open>The dropped JSON error of \<^verbatim>\<open>FileOutput\<close>\<close>

text \<open>
  Claim C10. With format \<open>json\<close>, \<^verbatim>\<open>handleMessage\<close> returns a \<^verbatim>\<open>nil\<close> error for every pack,
  also when \<^verbatim>\<open>json.Marshal\<close> fails: the output bytes are then the buffer with only the
  optional time stamp prefix appended (and with the encoding and a newline appended when it
  succeeds). The receiver loop therefore logs nothing for a pack whose encoding fails: it
  appends the prefix to the batch and recycles the pack.
\<close>

theorem C10_json_marshal_error_dropped:
  assumes "format f = ''json''"
  shows "handleMessage c f ts pack outBytes =
           Inr (None, (if prefix_ts f then outBytes @ ts else outBytes) @
                      (case json_Marshal c (Message pack) of
                         Inl e \<Rightarrow> []
                       | Inr jsonMessage \<Rightarrow> jsonMessage @ [NEWLINE c]))
       \<and> (json_Marshal c (Message pack) = Inl e \<longrightarrow>
            receiver_loop c f r (FromInChan pack ts # rest) outBatch w =
              receiver_loop c f r rest (outBatch @ (if prefix_ts f then ts else []))
                (emit [TakeEv pack, RecycleEv pack] w))"
  using assms
  by (simp add: handleMessage_def Recycle_def emit_emit split: sum.splits)

theorem C10_json_marshal_error_witness:
  "handleMessage type_codecs json_file ''[t2] '' (untyped_pack 3) [] = Inr (None, ''[t2] '')
   \<and> receiver_loop type_codecs json_file counter_filter
        [FromInChan (untyped_pack 3) ''[t2] ''] ''x'' world0 =
      (None, \<lparr>Stopping = False, trace =
         [TakeEv (untyped_pack 3), RecycleEv (untyped_pack 3), BatchSendEv ''x[t2] '',
          BatchCloseEv]\<rparr>)"
proof -
  have fmt: "format json_file = ''json''"
    by (simp add: json_file_def)
  have fails: "json_Marshal type_codecs (Message (untyped_pack 3)) = Inl ''unsupported''"
    by (simp add: type_codecs_def untyped_pack_def empty_message_def)
  show ?thesis
    using fails
      C10_json_marshal_error_dropped [OF fmt, of type_codecs "''[t2] ''" "untyped_pack 3" "[]"
        "''unsupported''" counter_filter "[]" "''x''" world0]
    by (simp add: json_file_def emit_def Recycle_def world0_def)
qed

subsection \<open>Pack retention\<close>








subsection \<open>Supervision\<close>

lemma Stopping_ShutDown [simp]: "Stopping (ShutDown w) = True"
  by (simp add: ShutDown_def)

lemma trace_ShutDown [simp]: "trace (ShutDown w) = trace w @ [ShutDownEv]"
  by (simp add: ShutDown_def)





lemma failed_attempts_0 [simp]: "failed_attempts lp nm create c 0 = []"
  by (simp add: failed_attempts_def)





lemma two_retries_helper:
  "NewRetryHelper two_retries = Inr \<lparr>rh_maxRetries = 2, rh_times = 0\<rparr>"
  by (simp add: NewRetryHelper_def two_retries_def)

lemma world0_running: "\<not> Stopping world0"
  by (simp add: world0_def)



text \<open>
  Claim C4. Let the retry helper be built and \<^verbatim>\<open>Stopping\<close> be unset when the supervisor
  starts. For an input runner whose plugin is not \<^verbatim>\<open>Restarting\<close>, and for a filter or output
  runner whose plugin is not \<^verbatim>\<open>Restarting\<close> and whose name has a wrapper in the map of its
  class: when the first \<^verbatim>\<open>Run\<close> returns (with an error, which is logged, or without), the
  supervisor returns with \<^verbatim>\<open>Stopping\<close> set; it has called \<^verbatim>\<open>Run\<close> once and neither
  \<^verbatim>\<open>CleanupForRestart\<close> nor \<^verbatim>\<open>CreateWithError\<close>, and it has called \<^verbatim>\<open>ShutDown\<close> unless the flag
  was already raised when \<^verbatim>\<open>Run\<close> returned. The plugin is the one it started with.
\<close>

theorem C4_non_restartable_shuts_down:
  assumes "NewRetryHelper retries = Inr rh" and "\<not> Stopping w"
  shows "(\<not> is_restarting p \<longrightarrow>
            iRunner_Starter pc sd nm retries p (res # rest) w =
              (Returned, p,
               w\<lparr>Stopping := True,
                 trace := trace w @ [RunEv, run_log InputLog nm res] @
                   (if stop_seen res then []
                    else [LogMessageEv InputLog nm ''has stopped, shutting down.'', ShutDownEv]) @
                   [WgDoneEv]\<rparr>))
       \<and> (\<not> is_restarting (fo_plugin r) \<and> (is_filter (fo_plugin r) \<or> is_output (fo_plugin r))
          \<and> (if is_filter (fo_plugin r) then filterWrappers pc (fo_name r)
              else outputWrappers pc (fo_name r)) \<noteq> None \<longrightarrow>
            foRunner_Starter pc sd retries r (res # rest) w =
              (Returned, r,
               w\<lparr>Stopping := True,
                 trace := trace w @ (if matcher r \<noteq> None then [MatcherStartEv] else []) @
                   [RunEv, run_log PluginLog (fo_name r) res] @
                   (if stop_seen res then []
                    else [LogMessageEv PluginLog (fo_name r) ''has stopped, shutting down.'',
                          ShutDownEv]) @
                   [WgDoneEv]\<rparr>))"
  using assms
  by (auto simp: iRunner_Starter_def foRunner_Starter_def after_Run_def iRunner_LogMessage_def
      foRunner_LogMessage_def ShutDown_def emit_def Let_def)

theorem C4_witness:
  "iRunner_Starter demo_config never_stopped ''tcp'' two_retries plain_input [io_error] world0 =
     (Returned, plain_input,
      \<lparr>Stopping = True, trace =
         [RunEv, LogErrorEv InputLog ''tcp'' ''i/o error'',
          LogMessageEv InputLog ''tcp'' ''has stopped, shutting down.'', ShutDownEv, WgDoneEv]\<rparr>)
   \<and> foRunner_Starter demo_config never_stopped two_retries counter_filter [io_error] world0 =
     (Returned, counter_filter,
      \<lparr>Stopping = True, trace =
         [MatcherStartEv, RunEv, LogErrorEv PluginLog ''counter'' ''i/o error'',
          LogMessageEv PluginLog ''counter'' ''has stopped, shutting down.'', ShutDownEv,
          WgDoneEv]\<rparr>)"
  using C4_non_restartable_shuts_down [OF two_retries_helper world0_running,
      of plain_input demo_config never_stopped "''tcp''" io_error "[]" counter_filter]
  by (simp add: plain_input_def counter_filter_def demo_config_def io_error_def run_log_def
      world0_def)

text \<open>
  Claim C9. For a filter or output runner whose name has no wrapper in the map of its
  plugin's class (with the retry helper built and \<^verbatim>\<open>Stopping\<close> unset at the start): when the
  first \<^verbatim>\<open>Run\<close> returns, with or without an error and whether or not the plugin is
  \<^verbatim>\<open>Restarting\<close>, the supervisor logs the return and returns. It calls neither
  \<^verbatim>\<open>CleanupForRestart\<close> nor \<^verbatim>\<open>CreateWithError\<close> nor \<^verbatim>\<open>ShutDown\<close>, and \<^verbatim>\<open>Stopping\<close> is
  afterwards what it was when \<^verbatim>\<open>Run\<close> returned.
\<close>

theorem C9_no_wrapper_returns_quietly:
  assumes "NewRetryHelper retries = Inr rh" and "\<not> Stopping w"
    and "is_filter (fo_plugin r) \<or> is_output (fo_plugin r)"
    and "(if is_filter (fo_plugin r) then filterWrappers pc (fo_name r)
          else outputWrappers pc (fo_name r)) = None"
  shows "foRunner_Starter pc sd retries r (res # rest) w =
           (Returned, r,
            w\<lparr>Stopping := stop_seen res,
              trace := trace w @ (if matcher r \<noteq> None then [MatcherStartEv] else []) @
                [RunEv, run_log PluginLog (fo_name r) res, WgDoneEv]\<rparr>)"
  using assms
  by (auto simp: foRunner_Starter_def after_Run_def emit_def Let_def)

theorem C9_witness:
  "foRunner_Starter demo_config never_stopped two_retries adhoc_output [io_error] world0 =
     (Returned, adhoc_output,
      \<lparr>Stopping = False, trace =
         [RunEv, LogErrorEv PluginLog ''adhoc'' ''i/o error'', WgDoneEv]\<rparr>)"
proof -
  have kind: "is_filter (fo_plugin adhoc_output) \<or> is_output (fo_plugin adhoc_output)"
    by (simp add: adhoc_output_def restartable_output_def)
  have none: "(if is_filter (fo_plugin adhoc_output)
               then filterWrappers demo_config (fo_name adhoc_output)
               else outputWrappers demo_config (fo_name adhoc_output)) = None"
    by (simp add: adhoc_output_def restartable_output_def demo_config_def)
  show ?thesis
    using C9_no_wrapper_returns_quietly [OF two_retries_helper world0_running kind none,
        of never_stopped io_error "[]"]
    by (simp add: adhoc_output_def io_error_def run_log_def world0_def)
qed

subsection \<open>Sandbox decoder\<close>

text \<open>
  Claim C7 says that \<^verbatim>\<open>Decode\<close>, when \<^verbatim>\<open>ProcessMessage\<close> returns a negative value, recycles the
  injected packs but the first, clears the batch and returns no packs and an error. The
  code instead panics whenever the script's last injection succeeded: the callback has set
  \<^verbatim>\<open>s.pack\<close> to \<^verbatim>\<open>nil\<close>, and the error text is built from \<^verbatim>\<open>s.pack.Message\<close>. Here the script
  injects one text payload and returns \<open>-1\<close>.
\<close>

theorem C7_Decode_panics_after_injection:
  "SandboxDecoder_Decode proto_defaults demo_unmarshal ''sandbox'' inject_then_fail 0 1
     (typed_pack 1 ''access'') idle_decoder world0 = Inl NilPointerDereference"
  by (simp add: SandboxDecoder_Decode_def inject_then_fail_def idle_decoder_def
      inject_callback_def accept_pack_def text_injection_def Let_def)

text \<open>
  Claim C6 says that every injection after the first gets its unset standard headers from
  the original input message. The code loses the original once a binary payload has failed
  to decode: the callback returns 1 with \<^verbatim>\<open>s.pack\<close> still set, so the next call takes the
  branch for a new input message, drops \<^verbatim>\<open>original\<close> and saves the headers of the pack the
  failed decode has wiped. Here the input message has type \<open>access\<close>; the script injects a
  text payload, then a binary payload that does not decode, then a binary payload that
  decodes to a message without headers. The second pack of the batch gets the default type,
  not \<open>access\<close>.
\<close>

theorem C6_headers_lost_after_failed_decode:
  "map (\<lambda>p. (pack_addr p, Type (Message p)))
     (sd_packs (inject_all proto_defaults demo_unmarshal
        [text_injection, garbage_injection, binary_injection]
        (idle_decoder\<lparr>sd_pack := Some (typed_pack 1 ''access'')\<rparr>))) =
   [(1, Some ''access''), (21, Some [])]"
  by (simp add: idle_decoder_def inject_callback_def accept_pack_def text_injection_def
      garbage_injection_def binary_injection_def demo_unmarshal_def typed_pack_def
      untyped_pack_def empty_message_def copyMessageHeaders_def fill_unset_headers_def
      GetType_def proto_defaults_def Let_def)

subsection \<open>Sandbox decoder: what holds\<close>

lemma fill_same_headers:
  "same_headers g a b \<Longrightarrow> fill_unset_headers g a m = fill_unset_headers g b m"
  by (simp add: same_headers_def fill_unset_headers_def cong: option.case_cong)

lemma same_headers_refl [simp]: "same_headers g a a"
  by (simp add: same_headers_def)

lemma same_headers_copy:
  "(case Uuid m of None \<Rightarrow> True | Some u \<Rightarrow> 0 < capacity u) \<Longrightarrow>
   same_headers g (copyMessageHeaders empty_message m) m"
  by (auto simp: same_headers_def copyMessageHeaders_def GetTimestamp_def GetType_def
      GetHostname_def GetLogger_def GetSeverity_def GetPid_def split: option.splits)

lemma same_headers_text:
  "same_headers g (m\<lparr>Payload := pl, Fields := fs\<rparr>) m"
  by (simp add: same_headers_def GetTimestamp_def GetType_def
      GetHostname_def GetLogger_def GetSeverity_def GetPid_def)

lemma inject_callback_later:
  assumes "batch_inv g m0 s" and "decodes unmarshal call"
  shows "fst (inject_callback g unmarshal call s) = 0
       \<and> sd_packs (snd (inject_callback g unmarshal call s)) =
           sd_packs s @ [later_injected g unmarshal m0 call]
       \<and> batch_inv g m0 (snd (inject_callback g unmarshal call s))"
proof -
  from assms(1) obtain om where
    om: "(if original s = None \<and> sd_packs s \<noteq> [] then Some (Message (hd (sd_packs s)))
          else original s) = Some om"
    and same: "same_headers g om m0" and np: "sd_pack s = None" and ne: "sd_packs s \<noteq> []"
    by (auto simp: batch_inv_def split: option.splits)
  show ?thesis
  proof (cases "inj_payload_type call = []")
    case True
    with assms(2) have dec: "fst (unmarshal (inj_payload call) (Message (new_pack call))) = None"
      by (simp add: decodes_def)
    obtain uerr m1 where u: "unmarshal (inj_payload call) (Message (new_pack call)) = (uerr, m1)"
      by (cases "unmarshal (inj_payload call) (Message (new_pack call))")
    with dec have [simp]: "uerr = None" by simp
    from True np om u same ne show ?thesis
      by (simp add: inject_callback_def accept_pack_def later_injected_def before_fill_def
          batch_inv_def fill_same_headers [OF same] Let_def)
  next
    case False
    with np om same ne show ?thesis
      by (simp add: inject_callback_def accept_pack_def later_injected_def before_fill_def
          batch_inv_def fill_same_headers [OF same] Let_def)
  qed
qed

lemma inject_all_later:
  assumes "\<forall>call\<in>set calls. decodes unmarshal call"
  shows "batch_inv g m0 s \<Longrightarrow>
         sd_packs (inject_all g unmarshal calls s) =
           sd_packs s @ map (later_injected g unmarshal m0) calls
       \<and> batch_inv g m0 (inject_all g unmarshal calls s)"
  using assms
proof (induction calls arbitrary: s)
  case Nil
  then show ?case by simp
next
  case (Cons call calls)
  from Cons.prems have dec: "decodes unmarshal call" and rest: "\<forall>c\<in>set calls. decodes unmarshal c"
    by simp_all
  from inject_callback_later [OF Cons.prems(1) dec]
  have step: "sd_packs (snd (inject_callback g unmarshal call s)) =
           sd_packs s @ [later_injected g unmarshal m0 call]"
    and inv: "batch_inv g m0 (snd (inject_callback g unmarshal call s))"
    by simp_all
  from Cons.IH [OF inv rest] step show ?case by simp
qed

lemma inject_callback_first:
  assumes "sd_pack s = Some p0" and "sd_packs s = []" and "decodes unmarshal call"
    and "case Uuid (Message p0) of None \<Rightarrow> True | Some u \<Rightarrow> 0 < capacity u"
  shows "sd_packs (snd (inject_callback g unmarshal call s)) = [first_injected g unmarshal p0 call]
       \<and> batch_inv g (Message p0) (snd (inject_callback g unmarshal call s))"
proof (cases "inj_payload_type call = []")
  case True
  with assms(3) have dec: "fst (unmarshal (inj_payload call) (Message p0)) = None"
    by (simp add: decodes_def)
  obtain uerr m1 where u: "unmarshal (inj_payload call) (Message p0) = (uerr, m1)"
    by (cases "unmarshal (inj_payload call) (Message p0)")
  with dec have [simp]: "uerr = None" by simp
  from True assms(1,2) u same_headers_copy [OF assms(4), of g] show ?thesis
    by (simp add: inject_callback_def accept_pack_def first_injected_def before_fill_def
        batch_inv_def fill_same_headers Let_def)
next
  case False
  with assms(1,2) show ?thesis
    by (simp add: inject_callback_def accept_pack_def first_injected_def before_fill_def
        batch_inv_def same_headers_text Let_def)
qed

text \<open>
  The inject callback when every binary payload decodes. Started by \<^verbatim>\<open>Decode\<close> on the input
  pack \<open>p0\<close> (whose \<^verbatim>\<open>Uuid\<close> is unset or has capacity), the calls of one \<^verbatim>\<open>ProcessMessage\<close> leave
  the batch the header rule describes: the input pack first, then one new pack per later
  call, each with every unset standard header taken from the input message and every set
  one untouched; the first pack's headers are restored when it went through the binary path.
\<close>

theorem inject_all_fills_from_input:
  assumes "sd_pack s = Some p0" and "sd_packs s = []"
    and "\<forall>call\<in>set (c1 # calls). decodes unmarshal call"
    and "case Uuid (Message p0) of None \<Rightarrow> True | Some u \<Rightarrow> 0 < capacity u"
  shows "sd_packs (inject_all g unmarshal (c1 # calls) s) =
           first_injected g unmarshal p0 c1 # map (later_injected g unmarshal (Message p0)) calls"
proof -
  from assms(3) have d1: "decodes unmarshal c1" and rest: "\<forall>c\<in>set calls. decodes unmarshal c"
    by simp_all
  from inject_callback_first [OF assms(1,2) d1 assms(4), of g]
  have first: "sd_packs (snd (inject_callback g unmarshal c1 s)) = [first_injected g unmarshal p0 c1]"
    and inv: "batch_inv g (Message p0) (snd (inject_callback g unmarshal c1 s))"
    by simp_all
  from inject_all_later [OF rest inv] first show ?thesis
    by simp
qed

theorem inject_all_fills_witness:
  "sd_packs (inject_all proto_defaults demo_unmarshal [text_injection, binary_injection]
      (idle_decoder\<lparr>sd_pack := Some (typed_pack 1 ''access'')\<rparr>)) =
   [\<lparr>pack_addr = 1, Message = empty_message\<lparr>Type := Some ''access'', Payload := Some ''line'',
       Fields := [\<lparr>f_name = ''payload_type'', f_value = ''txt'',
                   f_representation = ''file-extension''\<rparr>,
                  \<lparr>f_name = ''payload_name'', f_value = ''out'', f_representation = []\<rparr>]\<rparr>\<rparr>,
    \<lparr>pack_addr = 22, Message = empty_message\<lparr>Timestamp := Some 0, Type := Some ''access'',
       Logger := Some [], Severity := Some 7, Payload := Some ''encoded'', Pid := Some 0,
       Hostname := Some []\<rparr>\<rparr>]"
proof -
  have start: "sd_pack (idle_decoder\<lparr>sd_pack := Some (typed_pack 1 ''access'')\<rparr>) =
      Some (typed_pack 1 ''access'')"
    "sd_packs (idle_decoder\<lparr>sd_pack := Some (typed_pack 1 ''access'')\<rparr>) = []"
    by (simp_all add: idle_decoder_def)
  have dec: "\<forall>call\<in>set [text_injection, binary_injection]. decodes demo_unmarshal call"
    by (simp add: decodes_def text_injection_def binary_injection_def demo_unmarshal_def)
  have uuid: "case Uuid (Message (typed_pack 1 ''access'')) of None \<Rightarrow> True
              | Some u \<Rightarrow> 0 < capacity u"
    by (simp add: typed_pack_def empty_message_def)
  show ?thesis
    using inject_all_fills_from_input [OF start dec uuid, of proto_defaults]
    by (simp add: first_injected_def later_injected_def before_fill_def fill_unset_headers_def
        text_injection_def binary_injection_def demo_unmarshal_def typed_pack_def
        untyped_pack_def empty_message_def proto_defaults_def GetTimestamp_def GetType_def
        GetHostname_def GetLogger_def GetSeverity_def GetPid_def)
qed

lemma inject_callback_keeps:
  "sb_loaded (snd (inject_callback g u call s)) = sb_loaded s
   \<and> sd_err (snd (inject_callback g u call s)) = sd_err s
   \<and> sample (snd (inject_callback g u call s)) = sample s"
  by (simp add: inject_callback_def accept_pack_def Let_def split: option.splits prod.splits)

lemma inject_all_keeps:
  "sb_loaded (inject_all g u calls s) = sb_loaded s
   \<and> sd_err (inject_all g u calls s) = sd_err s
   \<and> sample (inject_all g u calls s) = sample s"
  by (induction calls arbitrary: s) (simp_all add: inject_callback_keeps)

lemma idle_decoder_loaded: "sb_loaded idle_decoder"
  by (simp add: idle_decoder_def)

text \<open>
  What \<^verbatim>\<open>Decode\<close> does with the return value of \<^verbatim>\<open>ProcessMessage\<close>, except after a successful
  last injection with a negative value. A positive value: the error is logged, \<^verbatim>\<open>ShutDown\<close> is
  called, and the batch is returned with the error. Zero: the batch is returned (\<^verbatim>\<open>nil\<close> when
  nothing was injected) with whatever error an earlier call left in \<^verbatim>\<open>s.err\<close>. A negative
  value with \<^verbatim>\<open>s.pack\<close> set: the packs of the batch but the first are recycled and \<^verbatim>\<open>nil\<close> is
  returned with an error; with \<^verbatim>\<open>s.pack\<close> unset the call panics. The batch is empty afterwards.
\<close>

theorem Decode_returns:
  fixes s :: SandboxDecoder and g :: getter_defaults and script :: script_run
    and pack :: PipelinePack and u :: "string \<Rightarrow> message \<Rightarrow> string option \<times> message"
  defines "s2 \<equiv> inject_all g u (injections script)
                   (s\<lparr>sd_pack := Some pack, processMessageCount := processMessageCount s + 1\<rparr>)"
  assumes loaded: "sb_loaded s"
  shows "(0 < retval script \<longrightarrow>
            (\<exists>s'. SandboxDecoder_Decode g u nm script dur rnd pack s w =
                    Inr ((if sd_packs s2 = [] then None else Some (sd_packs s2),
                          Some (''FATAL: '' @ last_error script)),
                         s',
                         ShutDown (dRunner_LogError nm (''FATAL: '' @ last_error script) w))
                  \<and> sd_packs s' = []))
       \<and> (retval script = 0 \<longrightarrow>
            (\<exists>s'. SandboxDecoder_Decode g u nm script dur rnd pack s w =
                    Inr ((if sd_packs s2 = [] then None else Some (sd_packs s2), sd_err s), s', w)
                  \<and> sd_packs s' = []))
       \<and> (retval script < 0 \<and> sd_pack s2 = Some pk \<longrightarrow>
            (\<exists>s'. SandboxDecoder_Decode g u nm script dur rnd pack s w =
                    Inr ((None, Some (''Failed parsing: '' @ GetPayload g (Message pk))), s',
                         recycle_rest (sd_packs s2) w)
                  \<and> sd_packs s' = []))
       \<and> (retval script < 0 \<and> sd_pack s2 = None \<longrightarrow>
            SandboxDecoder_Decode g u nm script dur rnd pack s w = Inl NilPointerDereference)"
  using loaded inject_all_keeps [of g u "injections script"
      "s\<lparr>sd_pack := Some pack, processMessageCount := processMessageCount s + 1\<rparr>"]
  by (auto simp: SandboxDecoder_Decode_def s2_def Let_def)

theorem Decode_returns_witness:
  "(\<exists>s'. SandboxDecoder_Decode proto_defaults demo_unmarshal ''sandbox'' out_of_memory 0 1
            (typed_pack 1 ''access'') idle_decoder world0 =
          Inr ((None, Some ''FATAL: out of memory''), s',
               \<lparr>Stopping = True, trace =
                  [LogErrorEv DecoderLog ''sandbox'' ''FATAL: out of memory'', ShutDownEv]\<rparr>))
   \<and> (\<exists>s'. SandboxDecoder_Decode proto_defaults demo_unmarshal ''sandbox'' two_then_garbage 0 1
            (typed_pack 1 ''access'') idle_decoder world0 =
          Inr ((None, Some ''Failed parsing: ''), s',
               \<lparr>Stopping = False, trace =
                  [RecycleEv \<lparr>pack_addr = 22, Message = empty_message\<lparr>Timestamp := Some 0,
                     Type := Some ''access'', Logger := Some [], Severity := Some 7,
                     Payload := Some ''encoded'', Pid := Some 0, Hostname := Some []\<rparr>\<rparr>]\<rparr>))"
proof -
  have pos: "0 < retval out_of_memory"
    by (simp add: out_of_memory_def)
  have neg: "retval two_then_garbage < 0
      \<and> sd_pack (inject_all proto_defaults demo_unmarshal (injections two_then_garbage)
           (idle_decoder\<lparr>sd_pack := Some (typed_pack 1 ''access''),
              processMessageCount := processMessageCount idle_decoder + 1\<rparr>)) =
         Some (untyped_pack 21)"
    by (simp add: two_then_garbage_def idle_decoder_def inject_callback_def accept_pack_def
        text_injection_def binary_injection_def garbage_injection_def demo_unmarshal_def
        untyped_pack_def Let_def)
  have packs: "sd_packs (inject_all proto_defaults demo_unmarshal (injections two_then_garbage)
           (idle_decoder\<lparr>sd_pack := Some (typed_pack 1 ''access''),
              processMessageCount := processMessageCount idle_decoder + 1\<rparr>)) =
      [\<lparr>pack_addr = 1, Message = empty_message\<lparr>Type := Some ''access'',
          Payload := Some ''line'',
          Fields := [\<lparr>f_name = ''payload_type'', f_value = ''txt'',
                      f_representation = ''file-extension''\<rparr>,
                     \<lparr>f_name = ''payload_name'', f_value = ''out'', f_representation = []\<rparr>]\<rparr>\<rparr>,
       \<lparr>pack_addr = 22, Message = empty_message\<lparr>Timestamp := Some 0, Type := Some ''access'',
          Logger := Some [], Severity := Some 7, Payload := Some ''encoded'', Pid := Some 0,
          Hostname := Some []\<rparr>\<rparr>]"
    by (simp add: two_then_garbage_def idle_decoder_def inject_callback_def accept_pack_def
        text_injection_def binary_injection_def garbage_injection_def demo_unmarshal_def
        typed_pack_def untyped_pack_def empty_message_def fill_unset_headers_def
        proto_defaults_def GetTimestamp_def GetType_def GetHostname_def GetLogger_def
        GetSeverity_def GetPid_def Let_def)
  note pos_case = Decode_returns [OF idle_decoder_loaded, where script = out_of_memory
        and g = proto_defaults and u = demo_unmarshal and nm = "''sandbox''" and dur = 0
        and rnd = 1 and pack = "typed_pack 1 ''access''" and w = world0]
  note neg_case = Decode_returns [OF idle_decoder_loaded, where script = two_then_garbage
        and g = proto_defaults and u = demo_unmarshal and nm = "''sandbox''" and dur = 0
        and rnd = 1 and pack = "typed_pack 1 ''access''" and w = world0
        and pk = "untyped_pack 21"]
  from pos pos_case obtain s1 where
    1: "SandboxDecoder_Decode proto_defaults demo_unmarshal ''sandbox'' out_of_memory 0 1
            (typed_pack 1 ''access'') idle_decoder world0 =
          Inr ((None, Some ''FATAL: out of memory''), s1,
               \<lparr>Stopping = True, trace =
                  [LogErrorEv DecoderLog ''sandbox'' ''FATAL: out of memory'', ShutDownEv]\<rparr>)"
    by (auto simp: out_of_memory_def idle_decoder_def ShutDown_def dRunner_LogError_def
        emit_def world0_def)
  from neg neg_case obtain s2 where
    2: "SandboxDecoder_Decode proto_defaults demo_unmarshal ''sandbox'' two_then_garbage 0 1
            (typed_pack 1 ''access'') idle_decoder world0 =
          Inr ((None, Some (''Failed parsing: '' @
                  GetPayload proto_defaults (Message (untyped_pack 21)))), s2,
               recycle_rest (sd_packs (inject_all proto_defaults demo_unmarshal
                 (injections two_then_garbage)
                 (idle_decoder\<lparr>sd_pack := Some (typed_pack 1 ''access''),
                   processMessageCount := processMessageCount idle_decoder + 1\<rparr>))) world0)"
    by blast
  from 1 2 show ?thesis
    unfolding packs
    by (simp add: recycle_rest_def emit_def world0_def GetPayload_def untyped_pack_def
        empty_message_def proto_defaults_def)
qed

end
